theory Spec2Isabelle
  imports Main
begin

section \<open>The board (class GameBoard)\<close>

text \<open>
  The C++ program keeps the grid in a public member
  \<^verbatim>\<open>std::vector<std::vector<char>> board\<close>, a vector of rows. It is modelled
  as a list of lists of characters. Coordinates and loop counters are C++ \<^verbatim>\<open>int\<close>s;
  the program only compares them with constants and counts from 0 to 3, so no
  arithmetic can overflow and they are modelled as \<^typ>\<open>int\<close>. An index is turned
  into a list position with \<^const>\<open>nat\<close> at the place where the vector is
  subscripted.
\<close>

definition SIZE :: int where
  "SIZE = 3"

record GameBoard =
  board :: "char list list"

text \<open>The constructor: \<^verbatim>\<open>SIZE\<close> rows of \<^verbatim>\<open>SIZE\<close> blanks.\<close>

definition GameBoard_new :: GameBoard where
  "GameBoard_new = \<lparr>board = replicate (nat SIZE) (replicate (nat SIZE) CHR '' '')\<rparr>"

text \<open>
  \<^verbatim>\<open>operator[]\<close> on a vector has undefined behaviour out of range, and
  \<^verbatim>\<open>IsWinner\<close> and \<^verbatim>\<open>Display\<close> subscript the grid with the constants 0, 1, 2.
  The class is used with 3 rows of 3 cells only: the constructor builds such a
  grid and the only write, \<^verbatim>\<open>SaveMove\<close>, replaces one cell. That shape is the
  predicate \<open>wf_board\<close>; the statements about subscripted cells are
  made for boards of that shape.
\<close>

definition wf_board :: "GameBoard \<Rightarrow> bool" where
  "wf_board b \<longleftrightarrow>
     length (board b) = nat SIZE \<and> list_all (\<lambda>row. length row = nat SIZE) (board b)"

text \<open>
  \<^verbatim>\<open>IsFull\<close>: two nested range-based loops with an early \<^verbatim>\<open>return false\<close>.
  \<open>IsFull_cells\<close> is the inner loop over one row; it yields \<open>False\<close> when
  the early return was taken and \<open>True\<close> when the row was walked to its end.
\<close>

fun IsFull_cells :: "char list \<Rightarrow> bool" where
  "IsFull_cells [] = True"
| "IsFull_cells (cell # row) = (if cell = CHR '' '' then False else IsFull_cells row)"

fun IsFull_rows :: "char list list \<Rightarrow> bool" where
  "IsFull_rows [] = True"
| "IsFull_rows (row # rows) = (if IsFull_cells row then IsFull_rows rows else False)"

definition IsFull :: "GameBoard \<Rightarrow> bool" where
  "IsFull b = IsFull_rows (board b)"

text \<open>
  \<^verbatim>\<open>IsWinner\<close>: the counting loop tests row \<open>i\<close> and then column \<open>i\<close>, returning
  at the first hit; after the loop come the two diagonals.
\<close>

definition at :: "GameBoard \<Rightarrow> int \<Rightarrow> int \<Rightarrow> char" where
  "at b i j = board b ! nat i ! nat j"

function IsWinner_loop :: "GameBoard \<Rightarrow> char \<Rightarrow> int \<Rightarrow> bool" where
  "IsWinner_loop b player i =
     (if i < SIZE then
        (if at b i 0 = player \<and> at b i 1 = player \<and> at b i 2 = player then True
         else if at b 0 i = player \<and> at b 1 i = player \<and> at b 2 i = player then True
         else IsWinner_loop b player (i + 1))
      else
        (if at b 0 0 = player \<and> at b 1 1 = player \<and> at b 2 2 = player then True
         else if at b 0 2 = player \<and> at b 1 1 = player \<and> at b 2 0 = player then True
         else False))"
  by pat_completeness auto
termination
  by (relation "measure (\<lambda>(b, player, i). nat (SIZE - i))") auto

definition IsWinner :: "GameBoard \<Rightarrow> char \<Rightarrow> bool" where
  "IsWinner b player = IsWinner_loop b player 0"

text \<open>
  \<^verbatim>\<open>Display\<close> writes to \<^verbatim>\<open>std::cout\<close> and returns nothing; the model returns the
  text it writes. \<open>Display_cols b i j\<close> is the inner loop from column \<open>j\<close> on,
  \<open>Display_rows b i\<close> the outer loop from row \<open>i\<close> on.
\<close>

function Display_cols :: "GameBoard \<Rightarrow> int \<Rightarrow> int \<Rightarrow> string" where
  "Display_cols b i j =
     (if j < SIZE then
        [at b i j] @ (if j < SIZE - 1 then ''|'' else []) @ Display_cols b i (j + 1)
      else [])"
  by pat_completeness auto
termination
  by (relation "measure (\<lambda>(b, i, j). nat (SIZE - j))") auto

function Display_rows :: "GameBoard \<Rightarrow> int \<Rightarrow> string" where
  "Display_rows b i =
     (if i < SIZE then
        Display_cols b i 0 @ ''\<newline>'' @
        (if i < SIZE - 1 then ''-----\<newline>'' else []) @ Display_rows b (i + 1)
      else [])"
  by pat_completeness auto
termination
  by (relation "measure (\<lambda>(b, i). nat (SIZE - i))") auto

definition Display :: "GameBoard \<Rightarrow> string" where
  "Display b = Display_rows b 0"

section \<open>The repository (class GameRepository)\<close>

text \<open>
  The repository owns the one live board in its private member \<^verbatim>\<open>_board\<close>
  (written \<open>m_board\<close> here, since an identifier cannot begin with an
  underscore). \<^verbatim>\<open>GetBoard\<close> returns the board by value, so the caller reads a
  copy: in the model, the value itself. \<^verbatim>\<open>SaveMove\<close> checks nothing; it is only
  called behind the guard of \<^verbatim>\<open>GameService::MakeMove\<close>.
\<close>

record GameRepository =
  m_board :: GameBoard

definition GameRepository_new :: GameRepository where
  "GameRepository_new = \<lparr>m_board = GameBoard_new\<rparr>"

definition GameRepository_SaveMove :: "int \<Rightarrow> int \<Rightarrow> char \<Rightarrow> GameRepository \<Rightarrow> GameRepository" where
  "GameRepository_SaveMove row col player r =
     r\<lparr>m_board := (m_board r)\<lparr>board :=
         (board (m_board r))[nat row := (board (m_board r) ! nat row)[nat col := player]]\<rparr>\<rparr>"

definition GameRepository_GetBoard :: "GameRepository \<Rightarrow> GameBoard" where
  "GameRepository_GetBoard r = m_board r"

definition GameRepository_ResetBoard :: "GameRepository \<Rightarrow> GameRepository" where
  "GameRepository_ResetBoard r = r\<lparr>m_board := GameBoard_new\<rparr>"

section \<open>The service (class GameService)\<close>

text \<open>
  The service holds a shared pointer to the repository and no state of its
  own, so its methods are functions of the repository they point to. A method
  that mutates returns the repository after the call; \<^verbatim>\<open>MakeMove\<close> returns its
  \<^verbatim>\<open>bool\<close> together with it.
\<close>

definition GameService_MakeMove :: "int \<Rightarrow> int \<Rightarrow> char \<Rightarrow> GameRepository \<Rightarrow> bool \<times> GameRepository" where
  "GameService_MakeMove row col player r =
     (if row < 0 \<or> row \<ge> SIZE \<or> col < 0 \<or> col \<ge> SIZE then (False, r)
      else if at (GameRepository_GetBoard r) row col \<noteq> CHR '' '' then (False, r)
      else (True, GameRepository_SaveMove row col player r))"

definition GameService_CheckWinner :: "char \<Rightarrow> GameRepository \<Rightarrow> bool" where
  "GameService_CheckWinner player r = IsWinner (GameRepository_GetBoard r) player"

definition GameService_IsBoardFull :: "GameRepository \<Rightarrow> bool" where
  "GameService_IsBoardFull r = IsFull (GameRepository_GetBoard r)"

definition GameService_ResetGame :: "GameRepository \<Rightarrow> GameRepository" where
  "GameService_ResetGame r = GameRepository_ResetBoard r"

definition GameService_GetBoard :: "GameRepository \<Rightarrow> GameBoard" where
  "GameService_GetBoard r = GameRepository_GetBoard r"

section \<open>The controller (class GameController)\<close>

text \<open>
  The controller holds a shared pointer to the service; \<^verbatim>\<open>main\<close> binds it to a
  \<^verbatim>\<open>GameService\<close>, so each call through the \<^verbatim>\<open>IGameService\<close> interface
  dispatches to the method above.
\<close>

definition GameController_MakeMove :: "int \<Rightarrow> int \<Rightarrow> char \<Rightarrow> GameRepository \<Rightarrow> bool \<times> GameRepository" where
  "GameController_MakeMove row col player r = GameService_MakeMove row col player r"

definition GameController_CheckWinner :: "char \<Rightarrow> GameRepository \<Rightarrow> bool" where
  "GameController_CheckWinner player r = GameService_CheckWinner player r"

definition GameController_IsBoardFull :: "GameRepository \<Rightarrow> bool" where
  "GameController_IsBoardFull r = GameService_IsBoardFull r"

definition GameController_ResetGame :: "GameRepository \<Rightarrow> GameRepository" where
  "GameController_ResetGame r = GameService_ResetGame r"

definition GameController_GetBoard :: "GameRepository \<Rightarrow> GameBoard" where
  "GameController_GetBoard r = GameService_GetBoard r"

section \<open>The presentation layer (class GamePresentation)\<close>

text \<open>
  The state of a running game: the repository behind the chain of shared
  pointers controller, service, repository; the private member
  \<^verbatim>\<open>_currentPlayer\<close>; and the text written to \<^verbatim>\<open>std::cout\<close> so far.
  \<^verbatim>\<open>std::cin\<close> is the list of integers still to be read; a read that finds fewer
  than two integers left blocks, and the run then stops in \<open>Inl\<close> with the
  state reached. Text that does not parse as an \<^verbatim>\<open>int\<close> is outside this model.
\<close>

record game_state =
  repository :: GameRepository
  currentPlayer :: char
  cout :: string

definition GamePresentation_new :: "GameRepository \<Rightarrow> game_state" where
  "GamePresentation_new r = \<lparr>repository = r, currentPlayer = CHR ''X'', cout = []\<rparr>"

definition print :: "string \<Rightarrow> game_state \<Rightarrow> game_state" where
  "print txt s = s\<lparr>cout := cout s @ txt\<rparr>"

definition DisplayBoard :: "game_state \<Rightarrow> game_state" where
  "DisplayBoard s =
     print ''\<newline>'' (print (Display (GameController_GetBoard (repository s))) (print ''\<newline>'' s))"

definition SwitchPlayer :: "game_state \<Rightarrow> game_state" where
  "SwitchPlayer s = s\<lparr>currentPlayer := (if currentPlayer s = CHR ''X'' then CHR ''O'' else CHR ''X'')\<rparr>"

definition prompt :: "char \<Rightarrow> string" where
  "prompt player =
     ''Player '' @ [player] @ '', enter your move (row and column, e.g., 1 2): ''"

fun GetPlayerMove :: "game_state \<Rightarrow> int list \<Rightarrow> game_state + game_state \<times> int list" where
  "GetPlayerMove s (row # col # cin) =
     (let s1 = print (prompt (currentPlayer s)) s;
          (ok, r) = GameController_MakeMove row col (currentPlayer s1) (repository s1)
      in if ok then Inr (s1\<lparr>repository := r\<rparr>, cin)
         else GetPlayerMove (print ''Invalid move. Try again.\<newline>'' (s1\<lparr>repository := r\<rparr>)) cin)"
| "GetPlayerMove s cin = Inl (print (prompt (currentPlayer s)) s)"

text \<open>
  One pass through the body of the \<^verbatim>\<open>while (true)\<close> loop of \<^verbatim>\<open>StartGame\<close>
  either leaves the loop by one of its two \<^verbatim>\<open>break\<close>s, or reaches the end of
  the body and goes round again, or blocks in \<^verbatim>\<open>GetPlayerMove\<close>.
\<close>

datatype step =
  Break game_state "int list"
| Continue game_state "int list"
| Blocked game_state

definition turn :: "game_state \<Rightarrow> int list \<Rightarrow> step" where
  "turn s cin =
     (case GetPlayerMove (DisplayBoard s) cin of
        Inl s' \<Rightarrow> Blocked s'
      | Inr (s1, cin1) \<Rightarrow>
          if GameController_CheckWinner (currentPlayer s1) (repository s1) then
            Break (print (''Player '' @ [currentPlayer s1] @ '' wins!\<newline>'') (DisplayBoard s1)) cin1
          else if GameController_IsBoardFull (repository s1) then
            Break (print ''It's a draw!\<newline>'' (DisplayBoard s1)) cin1
          else Continue (SwitchPlayer s1) cin1)"

function StartGame_loop :: "game_state \<Rightarrow> int list \<Rightarrow> game_state + game_state \<times> int list" where
  "StartGame_loop s cin =
     (case turn s cin of
        Break s' cin' \<Rightarrow> Inr (s', cin')
      | Continue s' cin' \<Rightarrow> StartGame_loop s' cin'
      | Blocked s' \<Rightarrow> Inl s')"
  by pat_completeness auto
termination
proof (relation "measure (\<lambda>(s, cin). length cin)")
  show "wf (measure (\<lambda>(s, cin). length cin))"
    by simp
next
  fix s s' :: game_state and cin cin' :: "int list"
  have shorter: "GetPlayerMove t inp = Inr (t', inp') \<Longrightarrow> length inp' < length inp"
    for t t' inp inp'
  proof (induction t inp rule: GetPlayerMove.induct)
    case (1 t row col inp)
    define t1 where "t1 = print (prompt (currentPlayer t)) t"
    obtain ok r
      where mv: "GameController_MakeMove row col (currentPlayer t1) (repository t1) = (ok, r)"
      by (cases "GameController_MakeMove row col (currentPlayer t1) (repository t1)")
    show ?case
    proof (cases ok)
      case True
      with "1.prems" mv show ?thesis
        by (simp add: t1_def)
    next
      case False
      with "1.prems" mv
      have "GetPlayerMove (print ''Invalid move. Try again.\<newline>'' (t1\<lparr>repository := r\<rparr>)) inp
              = Inr (t', inp')"
        by (simp add: t1_def)
      with "1.IH" [OF t1_def refl mv [symmetric] False] show ?thesis
        by simp
    qed
  qed simp_all
  assume "turn s cin = Continue s' cin'"
  then have "length cin' < length cin"
    by (auto simp: turn_def dest: shorter split: sum.splits prod.splits if_splits)
  then show "((s', cin'), (s, cin)) \<in> measure (\<lambda>(s, cin). length cin)"
    by simp
qed

text \<open>
  The loop's equation rewrites the loop by itself, so it is unfolded only on
  demand.
\<close>

declare StartGame_loop.simps [simp del]

text \<open>
  \<^verbatim>\<open>StartGame\<close> greets, resets the board and enters the loop;
  \<open>StartGame_init\<close> is the part before the loop.
\<close>

definition StartGame_init :: "game_state \<Rightarrow> game_state" where
  "StartGame_init s =
     (let s1 = print ''Welcome to Tic-Tac-Toe!\<newline>'' s
      in s1\<lparr>repository := GameController_ResetGame (repository s1)\<rparr>)"

definition StartGame :: "game_state \<Rightarrow> int list \<Rightarrow> game_state + game_state \<times> int list" where
  "StartGame s cin = StartGame_loop (StartGame_init s) cin"

definition main :: "int list \<Rightarrow> game_state + game_state \<times> int list" where
  "main cin = StartGame (GamePresentation_new GameRepository_new) cin"

section \<open>Notions of the specification\<close>

text \<open>
  The eight lines of the grid, as the specification counts them: three rows,
  three columns and two diagonals, each a list of three coordinates.
  \<open>line_all b p l\<close> says that every cell of line \<open>l\<close> holds \<open>p\<close>.
\<close>

definition win_lines :: "(int \<times> int) list list" where
  "win_lines =
     [[(0, 0), (0, 1), (0, 2)], [(1, 0), (1, 1), (1, 2)], [(2, 0), (2, 1), (2, 2)],
      [(0, 0), (1, 0), (2, 0)], [(0, 1), (1, 1), (2, 1)], [(0, 2), (1, 2), (2, 2)],
      [(0, 0), (1, 1), (2, 2)], [(0, 2), (1, 1), (2, 0)]]"

definition line_all :: "GameBoard \<Rightarrow> char \<Rightarrow> (int \<times> int) list \<Rightarrow> bool" where
  "line_all b p l = list_all (\<lambda>(i, j). at b i j = p) l"

text \<open>
  \<open>turns n s cin\<close> runs the loop body \<open>n\<close> times from state \<open>s\<close> on input
  \<open>cin\<close>, each pass ending in \<^verbatim>\<open>SwitchPlayer\<close>. It gives the state and the unread
  input at the top of the next pass, and \<open>None\<close> when the loop was left or
  blocked before.
\<close>

fun turns :: "nat \<Rightarrow> game_state \<Rightarrow> int list \<Rightarrow> (game_state \<times> int list) option" where
  "turns 0 s cin = Some (s, cin)"
| "turns (Suc n) s cin =
     (case turn s cin of Continue s' cin' \<Rightarrow> turns n s' cin' | _ \<Rightarrow> None)"

section \<open>Facts about the board\<close>

text \<open>
  A board of the shape \<open>wf_board\<close> is a grid of nine named cells; the
  constructor builds one, all blank.
\<close>

lemma length3: "length xs = 3 \<Longrightarrow> \<exists>a b c. xs = [a, b, c]"
  by (cases xs; cases "tl xs"; cases "tl (tl xs)") auto

lemma wf_board_grid:
  assumes "wf_board b"
  obtains a0 a1 a2 b0 b1 b2 c0 c1 c2
  where "board b = [[a0, a1, a2], [b0, b1, b2], [c0, c1, c2]]"
proof -
  from assms obtain r0 r1 r2 where rows: "board b = [r0, r1, r2]"
    using length3 [of "board b"] by (auto simp: wf_board_def SIZE_def)
  with assms have "length r0 = 3" "length r1 = 3" "length r2 = 3"
    by (simp_all add: wf_board_def SIZE_def)
  then show thesis
    using that rows length3 [of r0] length3 [of r1] length3 [of r2] by auto
qed

lemma wf_board_new: "wf_board GameBoard_new"
  by (simp add: wf_board_def GameBoard_new_def SIZE_def list_all_iff)

lemma board_new: "board GameBoard_new = [''   '', ''   '', ''   '']"
  by (simp add: GameBoard_new_def SIZE_def numeral_3_eq_3)

lemma index_set: "{0..<SIZE} = {0, 1, 2}"
  by (auto simp: SIZE_def)

lemma wf_board_row:
  "wf_board b \<Longrightarrow> i \<in> {0..<SIZE} \<Longrightarrow> nat i < length (board b) \<and> length (board b ! nat i) = nat SIZE"
  by (auto simp: wf_board_def list_all_length SIZE_def)

lemma at_new: "i \<in> {0..<SIZE} \<Longrightarrow> j \<in> {0..<SIZE} \<Longrightarrow> at GameBoard_new i j = CHR '' ''"
  unfolding index_set by (auto simp: at_def board_new)

text \<open>What the loops of \<^verbatim>\<open>IsFull\<close>, \<^verbatim>\<open>IsWinner\<close> and \<^verbatim>\<open>Display\<close> compute.\<close>

lemma IsFull_rows_iff:
  "IsFull_rows rows \<longleftrightarrow> (\<forall>row \<in> set rows. \<forall>cell \<in> set row. cell \<noteq> CHR '' '')"
proof -
  have cells: "IsFull_cells row \<longleftrightarrow> (\<forall>cell \<in> set row. cell \<noteq> CHR '' '')" for row
    by (induction row) auto
  show ?thesis by (induction rows) (auto simp: cells)
qed

lemma IsWinner_grid:
  assumes "board b = [[a0, a1, a2], [b0, b1, b2], [c0, c1, c2]]"
  shows "IsWinner b p \<longleftrightarrow>
     (a0 = p \<and> a1 = p \<and> a2 = p) \<or> (b0 = p \<and> b1 = p \<and> b2 = p) \<or> (c0 = p \<and> c1 = p \<and> c2 = p) \<or>
     (a0 = p \<and> b0 = p \<and> c0 = p) \<or> (a1 = p \<and> b1 = p \<and> c1 = p) \<or> (a2 = p \<and> b2 = p \<and> c2 = p) \<or>
     (a0 = p \<and> b1 = p \<and> c2 = p) \<or> (a2 = p \<and> b1 = p \<and> c0 = p)"
  using assms by (simp add: IsWinner_def SIZE_def at_def)

lemma lines_grid:
  assumes "board b = [[a0, a1, a2], [b0, b1, b2], [c0, c1, c2]]"
  shows "list_ex (line_all b p) win_lines \<longleftrightarrow>
     (a0 = p \<and> a1 = p \<and> a2 = p) \<or> (b0 = p \<and> b1 = p \<and> b2 = p) \<or> (c0 = p \<and> c1 = p \<and> c2 = p) \<or>
     (a0 = p \<and> b0 = p \<and> c0 = p) \<or> (a1 = p \<and> b1 = p \<and> c1 = p) \<or> (a2 = p \<and> b2 = p \<and> c2 = p) \<or>
     (a0 = p \<and> b1 = p \<and> c2 = p) \<or> (a2 = p \<and> b1 = p \<and> c0 = p)"
  using assms by (simp add: win_lines_def line_all_def at_def)

lemma Display_grid:
  "Display b =
     [at b 0 0, CHR ''|'', at b 0 1, CHR ''|'', at b 0 2, CHR ''\<newline>''] @ ''-----\<newline>'' @
     [at b 1 0, CHR ''|'', at b 1 1, CHR ''|'', at b 1 2, CHR ''\<newline>''] @ ''-----\<newline>'' @
     [at b 2 0, CHR ''|'', at b 2 1, CHR ''|'', at b 2 2, CHR ''\<newline>'']"
  by (simp add: Display_def SIZE_def)

text \<open>
  Claim C2. For every board of three rows of three cells, \<^verbatim>\<open>IsFull()\<close> returns
  true if and only if none of the nine cells holds the blank mark.
\<close>

theorem IsFull_iff_no_cell_empty:
  assumes "wf_board b"
  shows "IsFull b \<longleftrightarrow> (\<forall>i \<in> {0..<SIZE}. \<forall>j \<in> {0..<SIZE}. at b i j \<noteq> CHR '' '')"
proof -
  from assms obtain a0 a1 a2 b0 b1 b2 c0 c1 c2
    where g: "board b = [[a0, a1, a2], [b0, b1, b2], [c0, c1, c2]]" by (rule wf_board_grid)
  have "IsFull b \<longleftrightarrow> (\<forall>c \<in> {a0, a1, a2, b0, b1, b2, c0, c1, c2}. c \<noteq> CHR '' '')"
    by (auto simp add: IsFull_def IsFull_rows_iff g)
  also have "\<dots> \<longleftrightarrow> (\<forall>i \<in> {0..<SIZE}. \<forall>j \<in> {0..<SIZE}. at b i j \<noteq> CHR '' '')"
    by (simp add: index_set at_def g)
  finally show ?thesis .
qed

theorem IsFull_iff_no_cell_empty_witness:
  "wf_board GameBoard_new \<and> \<not> IsFull GameBoard_new \<and> at GameBoard_new 0 0 = CHR '' ''"
  using IsFull_iff_no_cell_empty [of GameBoard_new]
  by (simp add: wf_board_new board_new at_def index_set)

text \<open>
  Claim C3. For every board and every mark \<open>p\<close>, \<^verbatim>\<open>IsWinner(p)\<close> returns true if
  and only if at least one of the eight lines (three rows, three columns, two
  diagonals) has all three of its cells equal to \<open>p\<close>.
\<close>

theorem IsWinner_iff_line:
  assumes "wf_board b"
  shows "IsWinner b p \<longleftrightarrow> list_ex (line_all b p) win_lines"
proof -
  from assms obtain a0 a1 a2 b0 b1 b2 c0 c1 c2
    where g: "board b = [[a0, a1, a2], [b0, b1, b2], [c0, c1, c2]]" by (rule wf_board_grid)
  show ?thesis
    by (simp only: IsWinner_grid [OF g] lines_grid [OF g])
qed

theorem IsWinner_iff_line_witness:
  "wf_board \<lparr>board = [''XO '', ''OX '', ''  X'']\<rparr> \<and>
   IsWinner \<lparr>board = [''XO '', ''OX '', ''  X'']\<rparr> CHR ''X'' \<and>
   \<not> IsWinner \<lparr>board = [''XO '', ''OX '', ''  X'']\<rparr> CHR ''O''"
proof -
  have wf: "wf_board \<lparr>board = [''XO '', ''OX '', ''  X'']\<rparr>"
    by (simp add: wf_board_def SIZE_def)
  have "list_ex (line_all \<lparr>board = [''XO '', ''OX '', ''  X'']\<rparr> CHR ''X'') win_lines"
    and "\<not> list_ex (line_all \<lparr>board = [''XO '', ''OX '', ''  X'']\<rparr> CHR ''O'') win_lines"
    by (simp_all add: win_lines_def line_all_def at_def)
  with wf IsWinner_iff_line [OF wf] show ?thesis
    by simp
qed

text \<open>
  Claim C10. \<^verbatim>\<open>IsWinner\<close> does not ask for its argument to be a player's mark: on
  every board with a line of three blank cells \<^verbatim>\<open>IsWinner(' ')\<close> returns true,
  and so \<^verbatim>\<open>CheckWinner(' ')\<close> returns true right after \<^verbatim>\<open>ResetGame()\<close>.
\<close>

theorem IsWinner_blank:
  "(wf_board b \<and> list_ex (line_all b CHR '' '') win_lines \<longrightarrow> IsWinner b CHR '' '') \<and>
   GameService_CheckWinner CHR '' '' (GameService_ResetGame r)"
proof
  show "wf_board b \<and> list_ex (line_all b CHR '' '') win_lines \<longrightarrow> IsWinner b CHR '' ''"
  proof
    assume a: "wf_board b \<and> list_ex (line_all b CHR '' '') win_lines"
    then obtain a0 a1 a2 b0 b1 b2 c0 c1 c2
      where g: "board b = [[a0, a1, a2], [b0, b1, b2], [c0, c1, c2]]" by (auto elim: wf_board_grid)
    from a show "IsWinner b CHR '' ''"
      by (simp only: IsWinner_grid [OF g] lines_grid [OF g])
  qed
  show "GameService_CheckWinner CHR '' '' (GameService_ResetGame r)"
    by (simp add: GameService_CheckWinner_def GameService_ResetGame_def
        GameRepository_ResetBoard_def GameRepository_GetBoard_def IsWinner_grid [OF board_new])
qed

theorem IsWinner_blank_witness:
  "wf_board GameBoard_new \<and> list_ex (line_all GameBoard_new CHR '' '') win_lines \<and>
   IsWinner GameBoard_new CHR '' ''"
proof -
  have l: "list_ex (line_all GameBoard_new CHR '' '') win_lines"
    by (simp add: lines_grid [OF board_new])
  from IsWinner_blank [of GameBoard_new] wf_board_new l show ?thesis
    by simp
qed

section \<open>Facts about the repository, the service and the controller\<close>

text \<open>
  \<^verbatim>\<open>SaveMove\<close> at coordinates in range changes the one cell it names and keeps
  the shape of the board.
\<close>

lemma at_SaveMove:
  assumes wf: "wf_board (m_board r)"
    and row: "row \<in> {0..<SIZE}" and col: "col \<in> {0..<SIZE}"
    and i: "i \<in> {0..<SIZE}" and j: "j \<in> {0..<SIZE}"
  shows "at (m_board (GameRepository_SaveMove row col p r)) i j =
           (if i = row \<and> j = col then p else at (m_board r) i j)"
proof -
  note r = wf_board_row [OF wf row] and c = wf_board_row [OF wf col]
  from row i have rows: "nat row = nat i \<longleftrightarrow> i = row" by auto
  from col j have cols: "nat col = nat j \<longleftrightarrow> j = col" by auto
  from col have "nat col < nat SIZE" by simp
  with r show ?thesis
    by (simp add: GameRepository_SaveMove_def at_def nth_list_update rows cols)
qed

lemma wf_SaveMove:
  assumes wf: "wf_board (m_board r)" and row: "row \<in> {0..<SIZE}"
  shows "wf_board (m_board (GameRepository_SaveMove row col p r))"
  using wf wf_board_row [OF wf row]
  by (auto simp: wf_board_def GameRepository_SaveMove_def list_all_length nth_list_update)

lemma wf_repository_new: "wf_board (m_board GameRepository_new)"
  by (simp add: GameRepository_new_def wf_board_new)

text \<open>
  Claim C1. For every row, column and mark \<open>p\<close>, \<^verbatim>\<open>MakeMove\<close> returns false and
  leaves the board unchanged when the row is outside [0,3), the column is
  outside [0,3), or the cell is not blank; otherwise it returns true and sets
  exactly that cell to \<open>p\<close>, every other cell staying as it was.
\<close>

theorem MakeMove_spec:
  assumes "wf_board (m_board r)"
  shows "(row \<notin> {0..<SIZE} \<or> col \<notin> {0..<SIZE} \<or> at (m_board r) row col \<noteq> CHR '' '' \<longrightarrow>
            GameService_MakeMove row col p r = (False, r)) \<and>
         (row \<in> {0..<SIZE} \<and> col \<in> {0..<SIZE} \<and> at (m_board r) row col = CHR '' '' \<longrightarrow>
            fst (GameService_MakeMove row col p r) \<and>
            wf_board (m_board (snd (GameService_MakeMove row col p r))) \<and>
            (\<forall>i \<in> {0..<SIZE}. \<forall>j \<in> {0..<SIZE}.
               at (m_board (snd (GameService_MakeMove row col p r))) i j =
                 (if i = row \<and> j = col then p else at (m_board r) i j)))"
proof (intro conjI impI)
  assume "row \<notin> {0..<SIZE} \<or> col \<notin> {0..<SIZE} \<or> at (m_board r) row col \<noteq> CHR '' ''"
  then show "GameService_MakeMove row col p r = (False, r)"
    by (auto simp: GameService_MakeMove_def GameRepository_GetBoard_def)
next
  assume ok: "row \<in> {0..<SIZE} \<and> col \<in> {0..<SIZE} \<and> at (m_board r) row col = CHR '' ''"
  then have mv: "GameService_MakeMove row col p r = (True, GameRepository_SaveMove row col p r)"
    by (simp add: GameService_MakeMove_def GameRepository_GetBoard_def)
  show "fst (GameService_MakeMove row col p r)"
    by (simp add: mv)
  show "wf_board (m_board (snd (GameService_MakeMove row col p r)))"
    using assms ok by (simp add: mv wf_SaveMove)
  show "\<forall>i \<in> {0..<SIZE}. \<forall>j \<in> {0..<SIZE}.
          at (m_board (snd (GameService_MakeMove row col p r))) i j =
            (if i = row \<and> j = col then p else at (m_board r) i j)"
    using assms ok by (simp add: mv at_SaveMove)
qed

theorem MakeMove_spec_witness:
  "wf_board (m_board GameRepository_new) \<and>
   GameService_MakeMove 3 0 CHR ''X'' GameRepository_new = (False, GameRepository_new) \<and>
   (1 \<in> {0..<SIZE} \<and> at (m_board GameRepository_new) 1 1 = CHR '' '') \<and>
   fst (GameService_MakeMove 1 1 CHR ''X'' GameRepository_new) \<and>
   at (m_board (snd (GameService_MakeMove 1 1 CHR ''X'' GameRepository_new))) 1 1 = CHR ''X'' \<and>
   at (m_board (snd (GameService_MakeMove 1 1 CHR ''X'' GameRepository_new))) 0 2 = CHR '' ''"
proof -
  have one: "(1::int) \<in> {0..<SIZE}" and three: "(3::int) \<notin> {0..<SIZE}"
    and zero: "(0::int) \<in> {0..<SIZE}" and two: "(2::int) \<in> {0..<SIZE}"
    by (simp_all add: SIZE_def)
  have blank: "at (m_board GameRepository_new) 1 1 = CHR '' ''"
    and blank': "at (m_board GameRepository_new) 0 2 = CHR '' ''"
    by (simp_all add: GameRepository_new_def at_new [OF one one] at_new [OF zero two])
  from MakeMove_spec [OF wf_repository_new, of 3 0 "CHR ''X''"] three
  have rejected: "GameService_MakeMove 3 0 CHR ''X'' GameRepository_new = (False, GameRepository_new)"
    by simp
  from MakeMove_spec [OF wf_repository_new, of 1 1 "CHR ''X''"] one blank
  have accepted: "fst (GameService_MakeMove 1 1 CHR ''X'' GameRepository_new)"
    and cells: "\<forall>i \<in> {0..<SIZE}. \<forall>j \<in> {0..<SIZE}.
               at (m_board (snd (GameService_MakeMove 1 1 CHR ''X'' GameRepository_new))) i j =
                 (if i = 1 \<and> j = 1 then CHR ''X'' else at (m_board GameRepository_new) i j)"
    by simp_all
  from cells one zero two blank' 
  have "at (m_board (snd (GameService_MakeMove 1 1 CHR ''X'' GameRepository_new))) 1 1 = CHR ''X''"
    and "at (m_board (snd (GameService_MakeMove 1 1 CHR ''X'' GameRepository_new))) 0 2 = CHR '' ''"
    by simp_all
  with wf_repository_new rejected one blank accepted show ?thesis
    by simp
qed

text \<open>
  Claim C9. \<^verbatim>\<open>MakeMove\<close> does not validate the mark: at coordinates in range
  whose cell is blank, \<^verbatim>\<open>MakeMove(r, c, ' ')\<close> returns true and leaves the board
  as it was before the call, so a later \<^verbatim>\<open>MakeMove\<close> at the same cell, with any
  mark, succeeds as well.
\<close>

theorem MakeMove_blank_mark:
  assumes "wf_board (m_board r)" and "row \<in> {0..<SIZE}" and "col \<in> {0..<SIZE}"
    and "at (m_board r) row col = CHR '' ''"
  shows "GameService_MakeMove row col CHR '' '' r = (True, r) \<and>
         fst (GameService_MakeMove row col p (snd (GameService_MakeMove row col CHR '' '' r)))"
proof -
  have "(board (m_board r) ! nat row)[nat col := CHR '' ''] = board (m_board r) ! nat row"
    using assms(4) list_update_id [of "board (m_board r) ! nat row" "nat col"]
    by (simp add: at_def)
  then have same: "GameRepository_SaveMove row col CHR '' '' r = r"
    by (simp add: GameRepository_SaveMove_def)
  from assms have "GameService_MakeMove row col CHR '' '' r = (True, r)"
    by (simp add: GameService_MakeMove_def GameRepository_GetBoard_def same)
  moreover from assms have "fst (GameService_MakeMove row col p r)"
    by (simp add: GameService_MakeMove_def GameRepository_GetBoard_def)
  ultimately show ?thesis by simp
qed

theorem MakeMove_blank_mark_witness:
  "wf_board (m_board GameRepository_new) \<and> (1::int) \<in> {0..<SIZE} \<and> (2::int) \<in> {0..<SIZE} \<and>
   at (m_board GameRepository_new) 1 2 = CHR '' '' \<and>
   GameService_MakeMove 1 2 CHR '' '' GameRepository_new = (True, GameRepository_new) \<and>
   fst (GameService_MakeMove 1 2 CHR ''O'' (snd (GameService_MakeMove 1 2 CHR '' '' GameRepository_new)))"
proof -
  have one: "(1::int) \<in> {0..<SIZE}" and two: "(2::int) \<in> {0..<SIZE}"
    by (simp_all add: SIZE_def)
  have blank: "at (m_board GameRepository_new) 1 2 = CHR '' ''"
    by (simp add: GameRepository_new_def at_new [OF one two])
  from MakeMove_blank_mark [OF wf_repository_new one two blank, of "CHR ''O''"]
    wf_repository_new one two blank
  show ?thesis by blast
qed

text \<open>
  Claim C4. Whatever the board was, right after \<^verbatim>\<open>ResetGame()\<close> it is the freshly
  constructed board of three rows of three blanks; \<^verbatim>\<open>IsBoardFull()\<close> returns
  false, and \<^verbatim>\<open>CheckWinner\<close> returns false for the marks X and O.
\<close>

theorem ResetGame_fresh:
  "m_board (GameService_ResetGame r) = GameBoard_new \<and>
   board GameBoard_new = [''   '', ''   '', ''   ''] \<and>
   \<not> GameService_IsBoardFull (GameService_ResetGame r) \<and>
   \<not> GameService_CheckWinner CHR ''X'' (GameService_ResetGame r) \<and>
   \<not> GameService_CheckWinner CHR ''O'' (GameService_ResetGame r)"
  by (simp add: GameService_ResetGame_def GameRepository_ResetBoard_def
      GameService_IsBoardFull_def GameService_CheckWinner_def GameRepository_GetBoard_def
      IsFull_def board_new IsWinner_grid [OF board_new])

text \<open>
  Claim C5. Each operation of the controller returns what the operation of the
  service of the same name returns, and leaves the repository as that operation
  leaves it.
\<close>

theorem Controller_forwards:
  "GameController_MakeMove row col player r = GameService_MakeMove row col player r \<and>
   GameController_CheckWinner player r = GameService_CheckWinner player r \<and>
   GameController_IsBoardFull r = GameService_IsBoardFull r \<and>
   GameController_ResetGame r = GameService_ResetGame r \<and>
   GameController_GetBoard r = GameService_GetBoard r"
  by (simp add: GameController_MakeMove_def GameController_CheckWinner_def
      GameController_IsBoardFull_def GameController_ResetGame_def GameController_GetBoard_def)

section \<open>Facts about the presentation layer\<close>

text \<open>
  Claim C8. A board is rendered as exactly three rows of the form \<open>c|c|c\<close>, each
  \<open>c\<close> the mark of a cell, with a line of five dashes between two consecutive
  rows and none after the last; \<^verbatim>\<open>DisplayBoard\<close> writes a newline before the
  rendering and a newline after it, and changes nothing else.
\<close>

theorem Display_layout:
  "(wf_board b \<longrightarrow>
      Display b =
        [at b 0 0, CHR ''|'', at b 0 1, CHR ''|'', at b 0 2, CHR ''\<newline>''] @ ''-----\<newline>'' @
        [at b 1 0, CHR ''|'', at b 1 1, CHR ''|'', at b 1 2, CHR ''\<newline>''] @ ''-----\<newline>'' @
        [at b 2 0, CHR ''|'', at b 2 1, CHR ''|'', at b 2 2, CHR ''\<newline>'']) \<and>
   cout (DisplayBoard s) = cout s @ ''\<newline>'' @ Display (m_board (repository s)) @ ''\<newline>'' \<and>
   repository (DisplayBoard s) = repository s \<and>
   currentPlayer (DisplayBoard s) = currentPlayer s"
  by (simp add: Display_grid DisplayBoard_def print_def GameController_GetBoard_def
      GameService_GetBoard_def GameRepository_GetBoard_def)

theorem Display_layout_witness:
  "wf_board \<lparr>board = [''XO '', '' X '', ''O  '']\<rparr> \<and>
   Display \<lparr>board = [''XO '', '' X '', ''O  '']\<rparr> =
     ''X|O| \<newline>-----\<newline> |X| \<newline>-----\<newline>O| | \<newline>''"
proof -
  have wf: "wf_board \<lparr>board = [''XO '', '' X '', ''O  '']\<rparr>"
    by (simp add: wf_board_def SIZE_def)
  from Display_layout [of "\<lparr>board = [''XO '', '' X '', ''O  '']\<rparr>"] wf
  show ?thesis by (simp add: at_def)
qed

text \<open>
  Printing changes neither the board nor the player. A move accepted by
  \<^verbatim>\<open>GetPlayerMove\<close> keeps the current player, and input that follows what
  was read does not change what was read.
\<close>

lemma print_fields [simp]:
  "repository (print txt s) = repository s"
  "currentPlayer (print txt s) = currentPlayer s"
  "cout (print txt s) = cout s @ txt"
  by (simp_all add: print_def)

lemma DisplayBoard_fields [simp]:
  "repository (DisplayBoard s) = repository s"
  "currentPlayer (DisplayBoard s) = currentPlayer s"
  by (simp_all add: DisplayBoard_def)

lemma Controller_board [simp]:
  "GameController_CheckWinner p r = IsWinner (m_board r) p"
  "GameController_IsBoardFull r = IsFull (m_board r)"
  by (simp_all add: GameController_CheckWinner_def GameService_CheckWinner_def
      GameController_IsBoardFull_def GameService_IsBoardFull_def GameRepository_GetBoard_def)

lemma GetPlayerMove_accepted:
  "GetPlayerMove s cin = Inr (s1, cin1) \<Longrightarrow>
     currentPlayer s1 = currentPlayer s \<and> GetPlayerMove s (cin @ extra) = Inr (s1, cin1 @ extra)"
proof (induction s cin rule: GetPlayerMove.induct)
  case (1 s row col cin)
  define t where "t = print (prompt (currentPlayer s)) s"
  obtain ok r
    where mv: "GameController_MakeMove row col (currentPlayer t) (repository t) = (ok, r)"
    by (cases "GameController_MakeMove row col (currentPlayer t) (repository t)")
  show ?case
  proof (cases ok)
    case True
    with "1.prems" mv show ?thesis
      by (auto simp: t_def)
  next
    case False
    with "1.prems" mv
    have "GetPlayerMove (print ''Invalid move. Try again.\<newline>'' (t\<lparr>repository := r\<rparr>)) cin
            = Inr (s1, cin1)"
      by (simp add: t_def)
    from "1.IH" [OF t_def refl mv [symmetric] False this] mv False show ?thesis
      by (simp add: t_def)
  qed
qed simp_all

text \<open>The loop body after an accepted move, and its three ways out.\<close>

lemma turn_accepted:
  assumes "GetPlayerMove (DisplayBoard s) cin = Inr (s1, cin1)"
  shows "turn s cin =
     (if GameController_CheckWinner (currentPlayer s1) (repository s1) then
        Break (print (''Player '' @ [currentPlayer s1] @ '' wins!\<newline>'') (DisplayBoard s1)) cin1
      else if GameController_IsBoardFull (repository s1) then
        Break (print ''It's a draw!\<newline>'' (DisplayBoard s1)) cin1
      else Continue (SwitchPlayer s1) cin1)"
  using assms by (simp add: turn_def)

lemma turn_cases:
  obtains
    (blocked) t where "GetPlayerMove (DisplayBoard s) cin = Inl t" "turn s cin = Blocked t"
  | (accepted) s1 cin1 where "GetPlayerMove (DisplayBoard s) cin = Inr (s1, cin1)"
proof (cases "GetPlayerMove (DisplayBoard s) cin")
  case (Inl t)
  then show thesis by (intro blocked [of t]) (simp_all add: turn_def)
next
  case (Inr p)
  then show thesis by (cases p) (auto intro: accepted)
qed

lemma turn_Continue:
  assumes "turn s cin = Continue s' cin'"
  shows "currentPlayer s' = (if currentPlayer s = CHR ''X'' then CHR ''O'' else CHR ''X'')"
    and "turn s (cin @ extra) = Continue s' (cin' @ extra)"
proof -
  from assms obtain s1 cin1 where g: "GetPlayerMove (DisplayBoard s) cin = Inr (s1, cin1)"
    by (cases rule: turn_cases [of s cin]) simp_all
  note a = GetPlayerMove_accepted [OF g, of extra]
  from assms have c: "s' = SwitchPlayer s1" "cin' = cin1"
    and n: "\<not> GameController_CheckWinner (currentPlayer s1) (repository s1)"
           "\<not> GameController_IsBoardFull (repository s1)"
    by (simp_all add: turn_accepted [OF g] split: if_splits)
  from a c show "currentPlayer s' = (if currentPlayer s = CHR ''X'' then CHR ''O'' else CHR ''X'')"
    by (simp add: SwitchPlayer_def)
  from a c n show "turn s (cin @ extra) = Continue s' (cin' @ extra)"
    by (simp add: turn_accepted [of s "cin @ extra" s1 "cin1 @ extra"])
qed

lemma turn_Break:
  assumes "turn s cin = Break s' cin'"
  shows "turn s (cin @ extra) = Break s' (cin' @ extra)"
proof -
  from assms obtain s1 cin1 where g: "GetPlayerMove (DisplayBoard s) cin = Inr (s1, cin1)"
    by (cases rule: turn_cases [of s cin]) simp_all
  note a = GetPlayerMove_accepted [OF g, of extra]
  from a have "turn s (cin @ extra) =
     (if GameController_CheckWinner (currentPlayer s1) (repository s1) then
        Break (print (''Player '' @ [currentPlayer s1] @ '' wins!\<newline>'') (DisplayBoard s1)) (cin1 @ extra)
      else if GameController_IsBoardFull (repository s1) then
        Break (print ''It's a draw!\<newline>'' (DisplayBoard s1)) (cin1 @ extra)
      else Continue (SwitchPlayer s1) (cin1 @ extra))"
    by (simp add: turn_accepted [of s "cin @ extra" s1 "cin1 @ extra"])
  with assms show ?thesis
    by (simp add: turn_accepted [OF g] split: if_splits)
qed

text \<open>
  A finished game is not changed by further input, and its last announcement
  agrees with the board it ends on.
\<close>

lemma StartGame_loop_terminal:
  "StartGame_loop s cin = Inr (s', cin') \<Longrightarrow> StartGame_loop s (cin @ extra) = Inr (s', cin' @ extra)"
proof (induction s cin rule: StartGame_loop.induct)
  case (1 s cin)
  show ?case
  proof (cases "turn s cin")
    case (Break t rest)
    with "1.prems" turn_Break [OF Break, of extra] show ?thesis
      by (simp add: StartGame_loop.simps [of s])
  next
    case (Continue t rest)
    with "1.prems" have "StartGame_loop t rest = Inr (s', cin')"
      by (simp add: StartGame_loop.simps [of s cin])
    from "1.IH" [OF Continue this] turn_Continue(2) [OF Continue, of extra] show ?thesis
      by (simp add: StartGame_loop.simps [of s "cin @ extra"])
  next
    case (Blocked t)
    with "1.prems" show ?thesis
      by (simp add: StartGame_loop.simps [of s cin])
  qed
qed

lemma StartGame_loop_final:
  "StartGame_loop s cin = Inr (s', cin') \<Longrightarrow>
     (if IsWinner (m_board (repository s')) (currentPlayer s')
      then \<exists>pre. cout s' = pre @ ''Player '' @ [currentPlayer s'] @ '' wins!\<newline>''
      else IsFull (m_board (repository s')) \<and> (\<exists>pre. cout s' = pre @ ''It's a draw!\<newline>''))"
proof (induction s cin rule: StartGame_loop.induct)
  case (1 s cin)
  show ?case
  proof (cases "turn s cin")
    case (Break t rest)
    then obtain s1 cin1 where g: "GetPlayerMove (DisplayBoard s) cin = Inr (s1, cin1)"
      by (cases rule: turn_cases [of s cin]) simp_all
    from "1.prems" Break have t: "t = s'"
      by (simp add: StartGame_loop.simps [of s cin])
    show ?thesis
    proof (cases "IsWinner (m_board (repository s1)) (currentPlayer s1)")
      case True
      with Break have "s' = print (''Player '' @ [currentPlayer s1] @ '' wins!\<newline>'') (DisplayBoard s1)"
        by (simp add: turn_accepted [OF g] t)
      then have "repository s' = repository s1" "currentPlayer s' = currentPlayer s1"
        and "cout s' = cout (DisplayBoard s1) @ ''Player '' @ [currentPlayer s'] @ '' wins!\<newline>''"
        by (simp_all del: append.simps)
      with True have "IsWinner (m_board (repository s')) (currentPlayer s')"
        and "\<exists>pre. cout s' = pre @ ''Player '' @ [currentPlayer s'] @ '' wins!\<newline>''"
        by (simp, blast)
      then show ?thesis by (simp only: if_True)
    next
      case False
      with Break have "IsFull (m_board (repository s1))"
        and "s' = print ''It's a draw!\<newline>'' (DisplayBoard s1)"
        by (simp_all add: turn_accepted [OF g] t split: if_splits)
      then have "IsFull (m_board (repository s'))"
        and "repository s' = repository s1" "currentPlayer s' = currentPlayer s1"
        and "cout s' = cout (DisplayBoard s1) @ ''It's a draw!\<newline>''"
        by (simp_all del: append.simps)
      with False have "\<not> IsWinner (m_board (repository s')) (currentPlayer s')"
        and "IsFull (m_board (repository s'))"
        and "\<exists>pre. cout s' = pre @ ''It's a draw!\<newline>''"
        by (simp, simp, blast)
      then show ?thesis by (simp only: if_False simp_thms)
    qed
  next
    case (Continue t rest)
    with "1.prems" have "StartGame_loop t rest = Inr (s', cin')"
      by (simp add: StartGame_loop.simps [of s cin])
    from "1.IH" [OF Continue this] show ?thesis .
  next
    case (Blocked t)
    with "1.prems" show ?thesis
      by (simp add: StartGame_loop.simps [of s cin])
  qed
qed

text \<open>
  Claim C6. After every accepted move the loop tests the current player's win
  before it tests for a full board: a winning move ends the game with the
  announcement of that player, also when it fills the board; otherwise a full
  board ends it with the announcement of a draw; otherwise the turn switches
  to the other player, the board and the output staying as they are, and the
  loop goes on from there. The accepted move is the current player's own. A
  game that has ended accepts no further move: the
  input after the last accepted move stays unread and changes nothing, and
  the final announcement is the win of the current player whenever the final
  board is one, a draw on a full board otherwise.
\<close>

theorem win_checked_before_draw:
  "(GetPlayerMove (DisplayBoard s) cin = Inr (s1, cin1) \<longrightarrow>
      StartGame_loop s cin =
        (if IsWinner (m_board (repository s1)) (currentPlayer s1) then
           Inr (print (''Player '' @ [currentPlayer s1] @ '' wins!\<newline>'') (DisplayBoard s1), cin1)
         else if IsFull (m_board (repository s1)) then
           Inr (print ''It's a draw!\<newline>'' (DisplayBoard s1), cin1)
         else StartGame_loop (SwitchPlayer s1) cin1) \<and>
      currentPlayer s1 = currentPlayer s \<and>
      currentPlayer (SwitchPlayer s1) =
        (if currentPlayer s = CHR ''X'' then CHR ''O'' else CHR ''X'') \<and>
      currentPlayer (SwitchPlayer s1) \<noteq> currentPlayer s \<and>
      repository (SwitchPlayer s1) = repository s1 \<and>
      cout (SwitchPlayer s1) = cout s1) \<and>
   (StartGame_loop s cin = Inr (s', cin') \<longrightarrow>
      StartGame_loop s (cin @ extra) = Inr (s', cin' @ extra) \<and>
      (if IsWinner (m_board (repository s')) (currentPlayer s')
       then \<exists>pre. cout s' = pre @ ''Player '' @ [currentPlayer s'] @ '' wins!\<newline>''
       else IsFull (m_board (repository s')) \<and> (\<exists>pre. cout s' = pre @ ''It's a draw!\<newline>'')))"
proof (intro conjI impI)
  assume g: "GetPlayerMove (DisplayBoard s) cin = Inr (s1, cin1)"
  show "StartGame_loop s cin =
        (if IsWinner (m_board (repository s1)) (currentPlayer s1) then
           Inr (print (''Player '' @ [currentPlayer s1] @ '' wins!\<newline>'') (DisplayBoard s1), cin1)
         else if IsFull (m_board (repository s1)) then
           Inr (print ''It's a draw!\<newline>'' (DisplayBoard s1), cin1)
         else StartGame_loop (SwitchPlayer s1) cin1)"
    by (simp add: StartGame_loop.simps [of s cin] turn_accepted [OF g])
  from GetPlayerMove_accepted [OF g, of "[]"]
  show same: "currentPlayer s1 = currentPlayer s"
    by simp
  then show switched: "currentPlayer (SwitchPlayer s1) =
        (if currentPlayer s = CHR ''X'' then CHR ''O'' else CHR ''X'')"
    by (simp add: SwitchPlayer_def)
  then show "currentPlayer (SwitchPlayer s1) \<noteq> currentPlayer s"
    by simp
  show "repository (SwitchPlayer s1) = repository s1"
    by (simp add: SwitchPlayer_def)
  show "cout (SwitchPlayer s1) = cout s1"
    by (simp add: SwitchPlayer_def)
next
  assume r: "StartGame_loop s cin = Inr (s', cin')"
  show "StartGame_loop s (cin @ extra) = Inr (s', cin' @ extra)"
    by (rule StartGame_loop_terminal [OF r])
  show "if IsWinner (m_board (repository s')) (currentPlayer s')
       then \<exists>pre. cout s' = pre @ ''Player '' @ [currentPlayer s'] @ '' wins!\<newline>''
       else IsFull (m_board (repository s')) \<and> (\<exists>pre. cout s' = pre @ ''It's a draw!\<newline>'')"
    by (rule StartGame_loop_final [OF r])
qed

theorem win_checked_before_draw_witness:
  "let s = \<lparr>repository = \<lparr>m_board = \<lparr>board = [''XXO'', ''OXX'', ''OO '']\<rparr>\<rparr>,
            currentPlayer = CHR ''X'', cout = []\<rparr>;
       s1 = \<lparr>repository = \<lparr>m_board = \<lparr>board = [''XXO'', ''OXX'', ''OOX'']\<rparr>\<rparr>,
             currentPlayer = CHR ''X'',
             cout = ''\<newline>X|X|O\<newline>-----\<newline>O|X|X\<newline>-----\<newline>O|O| \<newline>\<newline>'' @
                    ''Player X, enter your move (row and column, e.g., 1 2): ''\<rparr>;
       s' = s1\<lparr>cout := cout s1 @
                    ''\<newline>X|X|O\<newline>-----\<newline>O|X|X\<newline>-----\<newline>O|O|X\<newline>\<newline>'' @
                    ''Player X wins!\<newline>''\<rparr>;
       d = \<lparr>repository = \<lparr>m_board = \<lparr>board = [''XOX'', ''XOO'', ''OX '']\<rparr>\<rparr>,
            currentPlayer = CHR ''X'', cout = []\<rparr>;
       d1 = \<lparr>repository = \<lparr>m_board = \<lparr>board = [''XOX'', ''XOO'', ''OXX'']\<rparr>\<rparr>,
             currentPlayer = CHR ''X'',
             cout = ''\<newline>X|O|X\<newline>-----\<newline>X|O|O\<newline>-----\<newline>O|X| \<newline>\<newline>'' @
                    ''Player X, enter your move (row and column, e.g., 1 2): ''\<rparr>;
       d' = d1\<lparr>cout := cout d1 @
                    ''\<newline>X|O|X\<newline>-----\<newline>X|O|O\<newline>-----\<newline>O|X|X\<newline>\<newline>'' @
                    ''It's a draw!\<newline>''\<rparr>;
       c = \<lparr>repository = \<lparr>m_board = \<lparr>board = [''X  '', ''   '', ''   '']\<rparr>\<rparr>,
            currentPlayer = CHR ''O'', cout = []\<rparr>;
       c1 = \<lparr>repository = \<lparr>m_board = \<lparr>board = [''X  '', '' O '', ''   '']\<rparr>\<rparr>,
             currentPlayer = CHR ''O'',
             cout = ''\<newline>X| | \<newline>-----\<newline> | | \<newline>-----\<newline> | | \<newline>\<newline>'' @
                    ''Player O, enter your move (row and column, e.g., 1 2): ''\<rparr>
   in GetPlayerMove (DisplayBoard s) [2, 2, 7, 7] = Inr (s1, [7, 7]) \<and>
      IsWinner (m_board (repository s1)) CHR ''X'' \<and> IsFull (m_board (repository s1)) \<and>
      StartGame_loop s [2, 2, 7, 7] = Inr (s', [7, 7]) \<and>
      StartGame_loop s ([2, 2, 7, 7] @ [1, 1]) = Inr (s', [7, 7] @ [1, 1]) \<and>
      GetPlayerMove (DisplayBoard d) [2, 2, 0, 0] = Inr (d1, [0, 0]) \<and>
      \<not> IsWinner (m_board (repository d1)) CHR ''X'' \<and> IsFull (m_board (repository d1)) \<and>
      StartGame_loop d [2, 2, 0, 0] = Inr (d', [0, 0]) \<and>
      GetPlayerMove (DisplayBoard c) [1, 1, 0, 1] = Inr (c1, [0, 1]) \<and>
      \<not> IsWinner (m_board (repository c1)) CHR ''O'' \<and> \<not> IsFull (m_board (repository c1)) \<and>
      StartGame_loop c [1, 1, 0, 1] = StartGame_loop (c1\<lparr>currentPlayer := CHR ''X''\<rparr>) [0, 1] \<and>
      SwitchPlayer c1 = c1\<lparr>currentPlayer := CHR ''X''\<rparr>"
proof -
  define s where "s = \<lparr>repository = \<lparr>m_board = \<lparr>board = [''XXO'', ''OXX'', ''OO '']\<rparr>\<rparr>,
            currentPlayer = CHR ''X'', cout = []\<rparr>"
  define s1 where "s1 = \<lparr>repository = \<lparr>m_board = \<lparr>board = [''XXO'', ''OXX'', ''OOX'']\<rparr>\<rparr>,
             currentPlayer = CHR ''X'',
             cout = ''\<newline>X|X|O\<newline>-----\<newline>O|X|X\<newline>-----\<newline>O|O| \<newline>\<newline>'' @
                    ''Player X, enter your move (row and column, e.g., 1 2): ''\<rparr>"
  define s' where "s' = s1\<lparr>cout := cout s1 @
                    ''\<newline>X|X|O\<newline>-----\<newline>O|X|X\<newline>-----\<newline>O|O|X\<newline>\<newline>'' @
                    ''Player X wins!\<newline>''\<rparr>"
  define d where "d = \<lparr>repository = \<lparr>m_board = \<lparr>board = [''XOX'', ''XOO'', ''OX '']\<rparr>\<rparr>,
            currentPlayer = CHR ''X'', cout = []\<rparr>"
  define d1 where "d1 = \<lparr>repository = \<lparr>m_board = \<lparr>board = [''XOX'', ''XOO'', ''OXX'']\<rparr>\<rparr>,
             currentPlayer = CHR ''X'',
             cout = ''\<newline>X|O|X\<newline>-----\<newline>X|O|O\<newline>-----\<newline>O|X| \<newline>\<newline>'' @
                    ''Player X, enter your move (row and column, e.g., 1 2): ''\<rparr>"
  define d' where "d' = d1\<lparr>cout := cout d1 @
                    ''\<newline>X|O|X\<newline>-----\<newline>X|O|O\<newline>-----\<newline>O|X|X\<newline>\<newline>'' @
                    ''It's a draw!\<newline>''\<rparr>"
  define c where "c = \<lparr>repository = \<lparr>m_board = \<lparr>board = [''X  '', ''   '', ''   '']\<rparr>\<rparr>,
            currentPlayer = CHR ''O'', cout = []\<rparr>"
  define c1 where "c1 = \<lparr>repository = \<lparr>m_board = \<lparr>board = [''X  '', '' O '', ''   '']\<rparr>\<rparr>,
             currentPlayer = CHR ''O'',
             cout = ''\<newline>X| | \<newline>-----\<newline> | | \<newline>-----\<newline> | | \<newline>\<newline>'' @
                    ''Player O, enter your move (row and column, e.g., 1 2): ''\<rparr>"
  have g: "GetPlayerMove (DisplayBoard s) [2, 2, 7, 7] = Inr (s1, [7, 7])"
    unfolding s_def s1_def by code_simp
  have w: "IsWinner (m_board (repository s1)) (currentPlayer s1)"
    and f: "IsFull (m_board (repository s1))"
    unfolding s1_def by code_simp+
  have a: "print (''Player '' @ [currentPlayer s1] @ '' wins!\<newline>'') (DisplayBoard s1) = s'"
    unfolding s1_def s'_def by code_simp
  note first = win_checked_before_draw [of s "[2, 2, 7, 7]" s1 "[7, 7]", THEN conjunct1, THEN mp, OF g]
  from first [THEN conjunct1] w a
  have win: "StartGame_loop s [2, 2, 7, 7] = Inr (s', [7, 7])"
    by (simp only: if_True)
  note more = win_checked_before_draw [of s "[2, 2, 7, 7]" s1 "[7, 7]" s' "[7, 7]" "[1, 1]",
      THEN conjunct2, THEN mp, OF win, THEN conjunct1]
  have dg: "GetPlayerMove (DisplayBoard d) [2, 2, 0, 0] = Inr (d1, [0, 0])"
    unfolding d_def d1_def by code_simp
  have dw: "\<not> IsWinner (m_board (repository d1)) (currentPlayer d1)"
    and df: "IsFull (m_board (repository d1))"
    unfolding d1_def by code_simp+
  have da: "print ''It's a draw!\<newline>'' (DisplayBoard d1) = d'"
    unfolding d1_def d'_def by code_simp
  note second = win_checked_before_draw [of d "[2, 2, 0, 0]" d1 "[0, 0]", THEN conjunct1, THEN mp, OF dg]
  from second [THEN conjunct1] dw df da
  have draw: "StartGame_loop d [2, 2, 0, 0] = Inr (d', [0, 0])"
    by (simp only: if_True if_False)
  have cg: "GetPlayerMove (DisplayBoard c) [1, 1, 0, 1] = Inr (c1, [0, 1])"
    unfolding c_def c1_def by code_simp
  have cw: "\<not> IsWinner (m_board (repository c1)) (currentPlayer c1)"
    and cf: "\<not> IsFull (m_board (repository c1))"
    unfolding c1_def by code_simp+
  have cp: "currentPlayer c = CHR ''O''" "currentPlayer c1 = CHR ''O''"
    by (simp_all add: c_def c1_def)
  note third = win_checked_before_draw [of c "[1, 1, 0, 1]" c1 "[0, 1]", THEN conjunct1, THEN mp, OF cg]
  from third [THEN conjunct1] cw cf
  have go: "StartGame_loop c [1, 1, 0, 1] = StartGame_loop (SwitchPlayer c1) [0, 1]"
    by (simp only: if_False)
  from third [THEN conjunct2, THEN conjunct2, THEN conjunct1] cp
  have px: "currentPlayer (SwitchPlayer c1) = CHR ''X''"
    by simp
  note rest = third [THEN conjunct2, THEN conjunct2, THEN conjunct2, THEN conjunct2]
  from px rest have sw: "SwitchPlayer c1 = c1\<lparr>currentPlayer := CHR ''X''\<rparr>"
    by (simp add: SwitchPlayer_def)
  have sx: "currentPlayer s1 = CHR ''X''" and dx: "currentPlayer d1 = CHR ''X''"
    by (simp_all add: s1_def d1_def)
  note w' = w [unfolded sx] and dw' = dw [unfolded dx] and cw' = cw [unfolded cp]
    and go' = go [unfolded sw]
  have "GetPlayerMove (DisplayBoard s) [2, 2, 7, 7] = Inr (s1, [7, 7]) \<and>
      IsWinner (m_board (repository s1)) CHR ''X'' \<and> IsFull (m_board (repository s1)) \<and>
      StartGame_loop s [2, 2, 7, 7] = Inr (s', [7, 7]) \<and>
      StartGame_loop s ([2, 2, 7, 7] @ [1, 1]) = Inr (s', [7, 7] @ [1, 1]) \<and>
      GetPlayerMove (DisplayBoard d) [2, 2, 0, 0] = Inr (d1, [0, 0]) \<and>
      \<not> IsWinner (m_board (repository d1)) CHR ''X'' \<and> IsFull (m_board (repository d1)) \<and>
      StartGame_loop d [2, 2, 0, 0] = Inr (d', [0, 0]) \<and>
      GetPlayerMove (DisplayBoard c) [1, 1, 0, 1] = Inr (c1, [0, 1]) \<and>
      \<not> IsWinner (m_board (repository c1)) CHR ''O'' \<and> \<not> IsFull (m_board (repository c1)) \<and>
      StartGame_loop c [1, 1, 0, 1] = StartGame_loop (c1\<lparr>currentPlayer := CHR ''X''\<rparr>) [0, 1] \<and>
      SwitchPlayer c1 = c1\<lparr>currentPlayer := CHR ''X''\<rparr>"
    by (intro conjI) (rule g w' f win more dg dw' df draw cg cw' cf go' sw)+
  then show ?thesis
    unfolding s_def s1_def s'_def d_def d1_def d'_def c_def c1_def Let_def .
qed

text \<open>
  Each completed pass of the loop switches between the two marks, and passes
  of the loop are steps of \<open>StartGame_loop\<close>.
\<close>

lemma turns_player:
  "turns n s cin = Some (s', cin') \<Longrightarrow> currentPlayer s \<in> {CHR ''X'', CHR ''O''} \<Longrightarrow>
     currentPlayer s' = (if even n then currentPlayer s else currentPlayer (SwitchPlayer s))"
proof (induction n arbitrary: s cin)
  case 0
  then show ?case by simp
next
  case (Suc n)
  from Suc.prems(1) obtain t rest where c: "turn s cin = Continue t rest"
    and r: "turns n t rest = Some (s', cin')"
    by (auto split: step.splits)
  note p = turn_Continue(1) [OF c]
  with Suc.prems(2) have "currentPlayer t \<in> {CHR ''X'', CHR ''O''}"
    by auto
  from Suc.IH [OF r this] p Suc.prems(2) show ?case
    by (auto simp: SwitchPlayer_def)
qed

lemma turns_loop:
  "turns n s cin = Some (s', cin') \<Longrightarrow> StartGame_loop s cin = StartGame_loop s' cin'"
proof (induction n arbitrary: s cin)
  case 0
  then show ?case by simp
next
  case (Suc n)
  from Suc.prems obtain t rest where c: "turn s cin = Continue t rest"
    and r: "turns n t rest = Some (s', cin')"
    by (auto split: step.splits)
  from Suc.IH [OF r] c show ?case
    by (simp add: StartGame_loop.simps [of s cin])
qed

text \<open>
  Claim C7. The current player starts as X and alternates strictly: in the game
  started by \<^verbatim>\<open>main\<close>, on any input, after the \<open>n\<close>-th completed
  \<^verbatim>\<open>SwitchPlayer\<close> the current player is X when \<open>n\<close> is even and O when \<open>n\<close> is
  odd, and switching twice gives the current player back.
\<close>

theorem current_player_alternates:
  "currentPlayer (GamePresentation_new r) = CHR ''X'' \<and>
   (turns n (StartGame_init (GamePresentation_new GameRepository_new)) cin = Some (s, cin') \<longrightarrow>
      currentPlayer s = (if even n then CHR ''X'' else CHR ''O'') \<and>
      currentPlayer (SwitchPlayer (SwitchPlayer s)) = currentPlayer s)"
proof (intro conjI impI)
  show "currentPlayer (GamePresentation_new r) = CHR ''X''"
    by (simp add: GamePresentation_new_def)
next
  assume t: "turns n (StartGame_init (GamePresentation_new GameRepository_new)) cin = Some (s, cin')"
  have x: "currentPlayer (StartGame_init (GamePresentation_new GameRepository_new)) = CHR ''X''"
    by (simp add: StartGame_init_def GamePresentation_new_def)
  with turns_player [OF t] show p: "currentPlayer s = (if even n then CHR ''X'' else CHR ''O'')"
    by (simp add: SwitchPlayer_def)
  then show "currentPlayer (SwitchPlayer (SwitchPlayer s)) = currentPlayer s"
    by (simp add: SwitchPlayer_def)
qed

theorem current_player_alternates_witness:
  "turns 3 (StartGame_init (GamePresentation_new GameRepository_new)) [0, 0, 1, 1, 0, 1] \<noteq> None \<and>
   map_option (currentPlayer \<circ> fst)
     (turns 3 (StartGame_init (GamePresentation_new GameRepository_new)) [0, 0, 1, 1, 0, 1]) =
     Some CHR ''O''"
proof -
  have "turns 3 (StartGame_init (GamePresentation_new GameRepository_new)) [0, 0, 1, 1, 0, 1] \<noteq> None"
    by code_simp
  then obtain s cin
    where t: "turns 3 (StartGame_init (GamePresentation_new GameRepository_new)) [0, 0, 1, 1, 0, 1]
                = Some (s, cin)"
    by auto
  from current_player_alternates [of GameRepository_new 3 "[0, 0, 1, 1, 0, 1]" s cin] t
  show ?thesis by simp
qed

end
